theory Spec2Isabelle
  imports Complex_Main "HOL-Library.Word"
begin

section \<open>The functions of the notebook on functions and modules\<close>

text \<open>
  The notebook \<^verbatim>\<open>07-functions-modules.ipynb\<close> defines a handful of small Python
  functions: \<^verbatim>\<open>greeting\<close>, \<^verbatim>\<open>square\<close>, \<^verbatim>\<open>hypot\<close>, \<^verbatim>\<open>primes5\<close> and the module
  \<^verbatim>\<open>vectools.py\<close> with \<^verbatim>\<open>norm\<close>, \<^verbatim>\<open>unitvector\<close> and a demonstration block behind
  \<^verbatim>\<open>if __name__ == "__main__"\<close>.

  Conventions of the embedding:
  \<^item> a \<^verbatim>\<open>float\<close> that a function returns is a \<^typ>\<open>real\<close>: its rounding is not
    represented. The arguments of \<^verbatim>\<open>hypot\<close> are Python's unbounded integers; what
    \<^verbatim>\<open>hypot\<close> does on float arguments (overflow to infinity, underflow to zero, NaN)
    is not part of the embedding;
  \<^item> the elements of an integer numpy array are 64-bit two's complement words
    (\<^verbatim>\<open>N.array([0, 1, 2])\<close> has dtype \<^verbatim>\<open>int64\<close>): \<^verbatim>\<open>x ** 2\<close> and the additions of
    \<^verbatim>\<open>sum\<close> wrap around, as numpy's do; arrays of floats are not part of the embedding;
  \<^item> a raised exception is the \<open>Inl\<close> of a sum type;
  \<^item> standard output is a state threaded through the functions that print.
\<close>

subsection \<open>Exceptions, objects and standard output\<close>

datatype error = ValueError string | OverflowError string

datatype pyobj = PyNone | PyInt int | PyFloat real | PyStr string

type_synonym stdout = string

text \<open>\<^verbatim>\<open>print(s)\<close> writes \<^verbatim>\<open>s\<close> and a newline, and returns \<^verbatim>\<open>None\<close>.\<close>

definition print_py :: "string \<Rightarrow> stdout \<Rightarrow> pyobj \<times> stdout" where
  "print_py s out = (PyNone, out @ s @ [CHR 0x0A])"

subsection \<open>\<^verbatim>\<open>greeting\<close>\<close>

text \<open>
  \<^verbatim>\<open>
  def greeting():
      print("Hello World!")
  \<close>
  The body has no \<^verbatim>\<open>return\<close>: the value of the \<^verbatim>\<open>print\<close> call is dropped and the
  call evaluates to \<^verbatim>\<open>None\<close>.
\<close>

definition greeting :: "stdout \<Rightarrow> pyobj \<times> stdout" where
  "greeting out = (case print_py ''Hello World!'' out of (_, out') \<Rightarrow> (PyNone, out'))"

subsection \<open>\<^verbatim>\<open>square\<close>\<close>

text \<open>
  \<^verbatim>\<open>
  def square(x):
      return x * x
  \<close>
  Python's \<^verbatim>\<open>*\<close> is whatever the argument's type provides: the definition is generic in
  the type, \<^typ>\<open>int\<close> for Python's unbounded integers and \<^typ>\<open>real\<close> for floats.
\<close>

definition square :: "'a::times \<Rightarrow> 'a" where
  "square x = x * x"

subsection \<open>\<^verbatim>\<open>math.sqrt\<close> and \<^verbatim>\<open>hypot\<close>\<close>

text \<open>
  \<^verbatim>\<open>math.sqrt\<close> converts its argument to a float and raises
  \<^verbatim>\<open>ValueError("math domain error")\<close> on a negative one.
\<close>

definition math_sqrt :: "real \<Rightarrow> error + real" where
  "math_sqrt v = (if v < 0 then Inl (ValueError ''math domain error'') else Inr (sqrt v))"





subsection \<open>\<^verbatim>\<open>primes5\<close>\<close>

text \<open>
  \<^verbatim>\<open>
  def primes5():
      return (2, 3, 5, 7, 11)
  \<close>
  The tuple is the list of its items, in order.
\<close>

definition primes5 :: "unit \<Rightarrow> int list" where
  "primes5 u = [2, 3, 5, 7, 11]"

text \<open>
  What "prime" means, for comparison with the hard-coded tuple: an integer from 2 on
  with no divisor strictly between 1 and itself.
\<close>

definition is_prime :: "int \<Rightarrow> bool" where
  "is_prime n = (2 \<le> n \<and> filter (\<lambda>d. n mod d = 0) [2..n - 1] = [])"

subsection \<open>The module \<^verbatim>\<open>vectools\<close>\<close>

type_synonym int64 = "64 word"

text \<open>\<^verbatim>\<open>x ** 2\<close> on an \<^verbatim>\<open>int64\<close> array: each element squared in 64 bits.\<close>

definition pow2 :: "int64 list \<Rightarrow> int64 list" where
  "pow2 x = map (\<lambda>v. v * v) x"

text \<open>
  The builtin \<^verbatim>\<open>sum\<close>: a left fold of \<^verbatim>\<open>+\<close> from \<^verbatim>\<open>0\<close>. The items are numpy
  \<^verbatim>\<open>int64\<close> scalars, whose addition wraps around (with a warning, not an exception).
\<close>

definition sum_py :: "int64 list \<Rightarrow> int64" where
  "sum_py xs = foldl (+) 0 xs"

text \<open>
  \<^verbatim>\<open>
  def norm(x):
      """returns the magnitude of a vector x"""
      return math.sqrt(sum(x ** 2))
  \<close>
  \<^verbatim>\<open>math.sqrt\<close> reads the \<^verbatim>\<open>int64\<close> sum as the signed number it is.
\<close>

definition norm_vec :: "int64 list \<Rightarrow> error + real" where
  "norm_vec x = math_sqrt (real_of_int (sint (sum_py (pow2 x))))"

text \<open>\<^verbatim>\<open>x / s\<close> for an \<^verbatim>\<open>int64\<close> array and a float: a float array, element by element.\<close>

definition div_arr :: "int64 list \<Rightarrow> real \<Rightarrow> real list" where
  "div_arr x s = map (\<lambda>v. real_of_int (sint v) / s) x"

text \<open>
  \<^verbatim>\<open>
  def unitvector(x):
      """returns a unit vector x/|x|. x needs to be a numpy array."""
      xnorm = norm(x)
      if xnorm == 0:
          raise ValueError("Can't normalise vector with length 0")
      return x / norm(x)
  \<close>
  \<^verbatim>\<open>norm\<close> is called twice, as in the source; an exception of either call propagates.
\<close>

definition unitvector :: "int64 list \<Rightarrow> error + real list" where
  "unitvector x =
     (case norm_vec x of
        Inl e \<Rightarrow> Inl e
      | Inr xnorm \<Rightarrow>
          if xnorm = 0 then Inl (ValueError ''Can't normalise vector with length 0'')
          else (case norm_vec x of
                  Inl e \<Rightarrow> Inl e
                | Inr n \<Rightarrow> Inr (div_arr x n)))"

text \<open>
  The demonstration block prints two lines built with \<^verbatim>\<open>str\<close> and \<^verbatim>\<open>+\<close>. The text
  \<^verbatim>\<open>str\<close> gives for a number is not modelled: a printed line is the list of the pieces
  that are concatenated, numbers kept as values.
\<close>

datatype piece = Text string | IntArray "int64 list" | Float real | FloatArray "real list"

type_synonym line = "piece list"

text \<open>
  \<^verbatim>\<open>
      x1 = N.array([0, 1, 2])
      print("The norm of " + str(x1) + " is " + str(norm(x1)) + ".")
      print("The unitvector in direction of " + str(x1) + " is " \
          + str(unitvector(x1)) + ".")
  \<close>
  The block returns the exception that ended it, if any, and the lines printed so far.
\<close>

definition demo :: "line list \<Rightarrow> error option \<times> line list" where
  "demo out =
     (let x1 = [0, 1, 2] in
      case norm_vec x1 of
        Inl e \<Rightarrow> (Some e, out)
      | Inr n \<Rightarrow>
          let out1 = out @ [[Text ''The norm of '', IntArray x1, Text '' is '', Float n, Text ''.'']] in
          (case unitvector x1 of
             Inl e \<Rightarrow> (Some e, out1)
           | Inr u \<Rightarrow>
               (None, out1 @ [[Text ''The unitvector in direction of '', IntArray x1,
                               Text '' is '', FloatArray u, Text ''.'']])))"

text \<open>
  Executing the file \<^verbatim>\<open>vectools.py\<close>. The two \<^verbatim>\<open>def\<close>s print nothing; the last
  statement is \<^verbatim>\<open>if __name__ == "__main__":\<close> with the demonstration as its body.
  Python sets \<^verbatim>\<open>__name__\<close> to \<^verbatim>\<open>"__main__"\<close> when the file is the program that is
  run, and to the module's name, \<^verbatim>\<open>"vectools"\<close>, when it is imported.
\<close>

datatype run_mode = Run_directly | Imported

definition dunder_name :: "run_mode \<Rightarrow> string" where
  "dunder_name m = (case m of Run_directly \<Rightarrow> ''__main__'' | Imported \<Rightarrow> ''vectools'')"

definition vectools :: "string \<Rightarrow> line list \<Rightarrow> error option \<times> line list" where
  "vectools name out = (if name = ''__main__'' then demo out else (None, out))"

subsection \<open>The Euclidean norm, for comparison\<close>

text \<open>
  The magnitude of a vector as mathematics has it, on the exact integers the array holds:
  the square root of the sum of the squares of the components.
\<close>

definition sum_squares :: "int64 list \<Rightarrow> int" where
  "sum_squares x = (\<Sum>v\<leftarrow>x. (sint v)\<^sup>2)"

definition euclidean_norm :: "int64 list \<Rightarrow> real" where
  "euclidean_norm x = sqrt (real_of_int (sum_squares x))"

section \<open>Properties\<close>

subsection \<open>\<^verbatim>\<open>square\<close>\<close>

text \<open>
  C5. For every number \<open>x\<close>, \<^verbatim>\<open>square(x)\<close> returns \<open>x * x\<close>; in particular squaring 3
  yields 9, for the integer 3 and for the float 3.0 alike.
\<close>

theorem square_returns_product:
  "square x = x * x \<and> square (3::int) = 9 \<and> square (3::real) = 9"
  by (simp add: square_def)

subsection \<open>\<^verbatim>\<open>greeting\<close>\<close>

text \<open>
  C9. \<^verbatim>\<open>greeting\<close> takes no argument, writes \<^verbatim>\<open>Hello World!\<close> and a newline to standard
  output, whatever was written before, and returns \<^verbatim>\<open>None\<close>.
\<close>

theorem greeting_prints_and_returns_None:
  "greeting out = (PyNone, out @ ''Hello World!'' @ [CHR 0x0A])"
  by (simp add: greeting_def print_py_def)

subsection \<open>\<^verbatim>\<open>hypot\<close>\<close>






subsection \<open>\<^verbatim>\<open>primes5\<close>\<close>

text \<open>
  C4. \<^verbatim>\<open>primes5\<close> takes no argument and returns the fixed tuple \<open>(2, 3, 5, 7, 11)\<close>: five
  items, which are the first five prime numbers (the five smallest integers that
  \<^const>\<open>is_prime\<close> accepts).
\<close>

theorem primes5_first_five_primes:
  "primes5 () = [2, 3, 5, 7, 11] \<and>
   length (primes5 ()) = 5 \<and>
   primes5 () = take 5 (filter is_prime [0..20])"
  by code_simp

subsection \<open>\<^verbatim>\<open>norm\<close>\<close>

text \<open>
  The left fold of \<^verbatim>\<open>sum\<close> adds up the list, and the 64-bit sum of the 64-bit squares
  is the exact sum of squares reduced to 64 bits.
\<close>

lemma foldl_plus_sum_list:
  "foldl (+) a xs = a + sum_list xs" for a :: "'a::comm_monoid_add"
  by (induction xs arbitrary: a) (simp_all add: add.assoc)

lemma sum_py_sum_list: "sum_py xs = sum_list xs"
  by (simp add: sum_py_def foldl_plus_sum_list)

lemma sum_squares_Cons: "sum_squares (v # x) = (sint v)\<^sup>2 + sum_squares x"
  by (simp add: sum_squares_def)

lemma sum_squares_nonneg: "0 \<le> sum_squares x"
  by (induction x) (simp_all add: sum_squares_def)

lemma word_of_int_sum_squares: "(word_of_int (sum_squares x) :: int64) = sum_py (pow2 x)"
  by (induction x)
    (simp_all add: sum_py_sum_list pow2_def sum_squares_def power2_eq_square
      flip: wi_hom_add wi_hom_mult)

lemma sint_sum_py_pow2:
  assumes "sum_squares x < 2 ^ 63"
  shows "sint (sum_py (pow2 x)) = sum_squares x"
proof -
  have "sint (sum_py (pow2 x)) = signed_take_bit 63 (sum_squares x)"
    by (simp add: sint_sbintrunc' flip: word_of_int_sum_squares)
  also have "\<dots> = sum_squares x"
    using assms sum_squares_nonneg [of x] by (intro signed_take_bit_int_eq_self) simp_all
  finally show ?thesis .
qed

text \<open>
  As long as the sum of the squares fits into 63 bits, \<^verbatim>\<open>norm\<close> returns the Euclidean
  norm and raises nothing.
\<close>

lemma norm_vec_exact:
  assumes "sum_squares x < 2 ^ 63"
  shows "norm_vec x = Inr (euclidean_norm x)"
  using sum_squares_nonneg [of x]
  by (simp add: norm_vec_def euclidean_norm_def math_sqrt_def sint_sum_py_pow2 [OF assms])

text \<open>
  C7. \<^verbatim>\<open>norm\<close> applied to the three-element vector \<open>(0, 1, 2)\<close> returns the square root
  of 5, which lies between 2.236 and 2.2361: approximately 2.236.
\<close>

theorem norm_of_0_1_2:
  "norm_vec [0, 1, 2] = Inr (sqrt 5) \<and> 2.236 < sqrt 5 \<and> sqrt 5 < 2.2361"
proof -
  have "norm_vec [0, 1, 2] = Inr (sqrt 5)"
    by (simp add: norm_vec_def sum_py_def pow2_def math_sqrt_def)
  moreover have "2.236 < sqrt 5"
    by (rule real_less_rsqrt) (simp add: power2_eq_square)
  moreover have "sqrt 5 < 2.2361"
    by (rule real_less_lsqrt) (simp_all add: power2_eq_square)
  ultimately show ?thesis by simp
qed

text \<open>
  C2 says that \<^verbatim>\<open>norm(x)\<close> is the square root of the sum of the squares of the
  components for every numeric vector, as the docstring of \<^verbatim>\<open>norm\<close> does ("returns the
  magnitude of a vector x"). On the \<^verbatim>\<open>int64\<close> array \<^verbatim>\<open>N.array([4294967296])\<close> the code
  returns 0: \<open>2\<^sup>3\<^sup>2\<close> squared is \<open>2\<^sup>6\<^sup>4\<close>, which \<^verbatim>\<open>x ** 2\<close> wraps to 0, while the
  magnitude of that vector is 4294967296.
\<close>

theorem norm_wraps_on_overflow:
  "norm_vec [4294967296] = Inr 0 \<and> euclidean_norm [4294967296] = 4294967296"
  by (simp add: norm_vec_def sum_py_def pow2_def math_sqrt_def
      euclidean_norm_def sum_squares_def)

subsection \<open>\<^verbatim>\<open>unitvector\<close>\<close>

lemma sum_squares_zero_iff: "sum_squares x = 0 \<longleftrightarrow> (\<forall>v\<in>set x. v = 0)"
proof (induction x)
  case Nil
  show ?case by (simp add: sum_squares_def)
next
  case (Cons v x)
  have "sum_squares (v # x) = 0 \<longleftrightarrow> (sint v)\<^sup>2 = 0 \<and> sum_squares x = 0"
    unfolding sum_squares_Cons
    by (rule add_nonneg_eq_0_iff) (simp_all add: sum_squares_nonneg)
  then show ?case
    using Cons.IH by (simp add: signed_eq_0_iff)
qed

text \<open>
  As long as the sum of the squares fits into 63 bits, \<^verbatim>\<open>unitvector\<close> raises exactly on
  the vectors of magnitude zero, and returns \<open>x / |x|\<close> on every other, a vector of
  length one.
\<close>

lemma unitvector_exact:
  assumes "sum_squares x < 2 ^ 63"
  shows "unitvector x =
    (if sum_squares x = 0 then Inl (ValueError ''Can't normalise vector with length 0'')
     else Inr (map (\<lambda>v. real_of_int (sint v) / euclidean_norm x) x))"
  by (simp add: unitvector_def norm_vec_exact [OF assms] div_arr_def euclidean_norm_def)

lemma sum_list_div_squares:
  "(\<Sum>v\<leftarrow>x. (real_of_int (sint v) / n)\<^sup>2) = real_of_int (sum_squares x) / n\<^sup>2"
  by (induction x)
    (simp_all add: sum_squares_def power_divide add_divide_distrib del: of_int_sint)

lemma unit_length:
  assumes "sum_squares x \<noteq> 0"
  shows "sqrt (\<Sum>u\<leftarrow>div_arr x (euclidean_norm x). u\<^sup>2) = 1"
  using assms sum_squares_nonneg [of x]
  by (simp add: div_arr_def comp_def sum_list_div_squares euclidean_norm_def del: of_int_sint)

text \<open>
  C1 says that \<^verbatim>\<open>unitvector\<close> raises \<^verbatim>\<open>ValueError\<close> if and only if the vector has
  magnitude zero, that is exactly when \<^verbatim>\<open>norm(x) == 0\<close>. On \<^verbatim>\<open>N.array([3037000500])\<close>
  the square is \<open>9223372037000250000 > 2\<^sup>6\<^sup>3 - 1\<close> and wraps to a negative \<^verbatim>\<open>int64\<close>;
  \<^verbatim>\<open>math.sqrt\<close> inside \<^verbatim>\<open>norm\<close> raises \<^verbatim>\<open>ValueError("math domain error")\<close>, and so does
  \<^verbatim>\<open>unitvector\<close>: on a vector of magnitude 3037000500, for which \<^verbatim>\<open>norm\<close> does not
  return 0 either.
\<close>

theorem unitvector_raises_on_overflow:
  "unitvector [3037000500] = Inl (ValueError ''math domain error'') \<and>
   norm_vec [3037000500] = Inl (ValueError ''math domain error'') \<and>
   euclidean_norm [3037000500] = 3037000500"
  by (simp add: unitvector_def norm_vec_def sum_py_def pow2_def math_sqrt_def
      euclidean_norm_def sum_squares_def)

text \<open>
  C3 says that for every vector of nonzero magnitude \<^verbatim>\<open>unitvector(x)\<close> returns the unit
  vector \<open>x / |x|\<close>, as its docstring does. On \<^verbatim>\<open>N.array([4294967296])\<close>, of magnitude
  4294967296, it raises \<^verbatim>\<open>ValueError("Can't normalise vector with length 0")\<close>; on
  \<^verbatim>\<open>N.array([4294967297])\<close> it returns a vector whose only component is
  \<open>4294967297 / sqrt 8589934593\<close>, about 46341 and not 1.
\<close>

theorem unitvector_wrong_on_overflow:
  "unitvector [4294967296] = Inl (ValueError ''Can't normalise vector with length 0'') \<and>
   euclidean_norm [4294967296] = 4294967296 \<and>
   unitvector [4294967297] = Inr [4294967297 / sqrt 8589934593] \<and>
   euclidean_norm [4294967297] = 4294967297"
  by (simp add: unitvector_def div_arr_def norm_vec_def sum_py_def pow2_def math_sqrt_def
      euclidean_norm_def sum_squares_def)

subsection \<open>The demonstration block of \<^verbatim>\<open>vectools\<close>\<close>

text \<open>
  C8. Executing \<^verbatim>\<open>vectools.py\<close> prints the two demonstration lines, the norm and the
  unit vector of \<open>[0, 1, 2]\<close>, when \<^verbatim>\<open>__name__\<close> is \<^verbatim>\<open>"__main__"\<close>, and prints nothing
  and raises nothing for any other \<^verbatim>\<open>__name__\<close>. So importing the module leaves the
  output as it was, and running the file directly adds to it.
\<close>

theorem demo_only_when_run_directly:
  "vectools name out =
     (if name = ''__main__''
      then (None, out @
        [[Text ''The norm of '', IntArray [0, 1, 2], Text '' is '', Float (sqrt 5), Text ''.''],
         [Text ''The unitvector in direction of '', IntArray [0, 1, 2], Text '' is '',
          FloatArray [0, 1 / sqrt 5, 2 / sqrt 5], Text ''.'']])
      else (None, out)) \<and>
   vectools (dunder_name Imported) out = (None, out) \<and>
   snd (vectools (dunder_name Run_directly) out) \<noteq> out"
  by (simp add: vectools_def demo_def Let_def dunder_name_def unitvector_def div_arr_def
      norm_vec_def sum_py_def pow2_def math_sqrt_def)

end
